theory Spec2Isabelle
  imports Complex_Main "HOL-Library.Multiset"
begin

section \<open>Data model\<close>

text \<open>
  The service \<^verbatim>\<open>WishesService\<close> (wishes.service.ts) works on \<^verbatim>\<open>Wish\<close> entities held in a
  relational table behind a TypeORM repository. The entity class, the two DTO classes and
  the constants file are imported by the service but are not among the sources; the field
  lists below follow the service's own destructuring in \<^verbatim>\<open>copy\<close>
  (\<^verbatim>\<open>id, createdAt, updatedAt, copied, owner, offers, raised, ...wishData\<close>) and the data
  model of the specification (title, description, link, image, price).

  Amounts (\<^verbatim>\<open>price\<close>, \<^verbatim>\<open>raised\<close>) are rationals, identifiers, timestamps and the
  \<^verbatim>\<open>copied\<close> counter are naturals. The field \<^verbatim>\<open>id\<close> is written \<open>wish_id\<close> and
  \<^verbatim>\<open>image\<close> is written \<open>image_url\<close>, since both names are taken in HOL.
\<close>

record user =
  user_id :: nat
  username :: string

record offer =
  offer_id :: nat
  amount :: rat
  offer_user :: "user option"

text \<open>
  \<open>wish_data\<close> is the creation payload \<^verbatim>\<open>CreateWishDto\<close>, and also what is left of an
  entity once \<^verbatim>\<open>copy\<close> has destructured the identity and derived fields away
  (\<^verbatim>\<open>...wishData\<close>).
\<close>

record wish_data =
  title :: string
  description :: string
  link :: string
  image_url :: string
  price :: rat

text \<open>
  A wish extends the payload with the identity and derived columns. The two relations are
  type parameters: a table row always carries its owner and its offers, while an entity
  handed out by the repository carries a relation only when the query asked for it
  (\<^verbatim>\<open>relations: [...]\<close>), and has \<^verbatim>\<open>undefined\<close> there otherwise.
\<close>

record ('o, 'f) wish_cols = wish_data +
  wish_id :: nat
  createdAt :: nat
  updatedAt :: nat
  raised :: rat
  copied :: nat
  owner :: 'o
  offers :: 'f

type_synonym wish_row = "(user, offer list) wish_cols"
type_synonym wish = "(user option, offer list option) wish_cols"

text \<open>
  \<^verbatim>\<open>UpdateWishDto\<close>: every field of the creation payload, each optional
  (\<open>None\<close> is a key absent from the patch).
\<close>

record update_wish_dto =
  new_title :: "string option"
  new_description :: "string option"
  new_link :: "string option"
  new_image_url :: "string option"
  new_price :: "rat option"

text \<open>
  The partial entity that \<^verbatim>\<open>Repository.update\<close> receives: the service passes an
  \<^verbatim>\<open>UpdateWishDto\<close>, \<^verbatim>\<open>{ copied: copied + 1 }\<close> or \<^verbatim>\<open>{ raised: raisedAmount }\<close>.
\<close>

record partial_wish =
  set_title :: "string option"
  set_description :: "string option"
  set_link :: "string option"
  set_image_url :: "string option"
  set_price :: "rat option"
  set_raised :: "rat option"
  set_copied :: "nat option"

definition no_change :: partial_wish where
  "no_change = \<lparr>set_title = None, set_description = None, set_link = None,
     set_image_url = None, set_price = None, set_raised = None, set_copied = None\<rparr>"

definition dto_columns :: "update_wish_dto \<Rightarrow> partial_wish" where
  "dto_columns dto = \<lparr>set_title = new_title dto, set_description = new_description dto,
     set_link = new_link dto, set_image_url = new_image_url dto, set_price = new_price dto,
     set_raised = None, set_copied = None\<rparr>"

text \<open>
  Modelled from the spec: \<^verbatim>\<open>WishErrors\<close> of wishes.constants (not among the sources),
  "a small fixed set of named error messages (NotFound, NotOwner, CannotChangePrice)".
  An exception is the NestJS exception class together with the message it was built from;
  \<open>TypeError\<close> is what JavaScript throws on destructuring or dereferencing \<^verbatim>\<open>null\<close>, and
  \<open>StoreError\<close> stands for a failure of the persistence layer, which the service never
  translates.
\<close>

datatype wish_error = NotFound | NotOwner | CannotChangePrice

datatype exn =
    NotFoundException wish_error
  | BadRequestException wish_error
  | TypeError
  | StoreError

text \<open>
  \<^verbatim>\<open>WishesLimits\<close> of wishes.constants (not among the sources): the two caps are taken
  as parameters of the two listing operations.
\<close>

record wishes_limits =
  latest :: nat
  mostCopied :: nat


section \<open>The persistence layer\<close>

text \<open>
  The store is an external collaborator. Its state is the table of wishes, the id
  sequence, the store's current time, and the state of the query runner that \<^verbatim>\<open>copy\<close>
  creates. Two further components describe the environment of a call: \<open>script\<close> says
  what happens at each of the coming store calls (nothing, the call fails, or another
  request has deleted a wish in the meantime), one event per call and \<open>Quiet\<close> once the
  script is used up; \<open>trace\<close> records every call that reached the store.
\<close>

datatype relation = Owner | Offers | OffersUser

datatype order_by = CreatedAt_DESC | Copied_DESC

datatype call =
    FindOne nat
  | Find
  | Save
  | Update nat
  | Delete nat
  | Connect
  | StartTransaction
  | CommitTransaction
  | RollbackTransaction
  | Release

datatype event = Quiet | Fault | Removed nat

record world =
  table :: "wish_row list"
  next_id :: nat
  clock :: nat
  runner_connected :: bool
  transaction :: bool
  script :: "event list"
  trace :: "call list"

text \<open>
  An asynchronous operation takes the world and returns either the exception it threw or
  its value, together with the world it leaves behind: what was written before a throw
  stays written.
\<close>

type_synonym 'a io = "world \<Rightarrow> (exn + 'a) \<times> world"

definition resolve :: "'a \<Rightarrow> 'a io" where
  "resolve x w = (Inr x, w)"

definition throw :: "exn \<Rightarrow> 'a io" where
  "throw e w = (Inl e, w)"

definition await :: "'a io \<Rightarrow> ('a \<Rightarrow> 'b io) \<Rightarrow> 'b io" where
  "await m k w = (case m w of (Inl e, w') \<Rightarrow> (Inl e, w') | (Inr x, w') \<Rightarrow> k x w')"

definition try_catch :: "'a io \<Rightarrow> (exn \<Rightarrow> 'a io) \<Rightarrow> 'a io" where
  "try_catch m h w = (case m w of (Inl e, w') \<Rightarrow> h e w' | (Inr x, w') \<Rightarrow> (Inr x, w'))"

definition try_finally :: "'a io \<Rightarrow> unit io \<Rightarrow> 'a io" where
  "try_finally m f w =
     (case m w of (r, w') \<Rightarrow>
        (case f w' of (Inl e, w'') \<Rightarrow> (Inl e, w'') | (Inr u, w'') \<Rightarrow> (r, w'')))"

definition store_call :: "call \<Rightarrow> unit io" where
  "store_call c w =
     (let w1 = w\<lparr>trace := trace w @ [c]\<rparr> in
      case script w of
        [] \<Rightarrow> (Inr (), w1)
      | Quiet # es \<Rightarrow> (Inr (), w1\<lparr>script := es\<rparr>)
      | Fault # es \<Rightarrow> (Inl StoreError, w1\<lparr>script := es\<rparr>)
      | Removed i # es \<Rightarrow>
          (Inr (), w1\<lparr>script := es, table := filter (\<lambda>r. wish_id r \<noteq> i) (table w)\<rparr>))"

subsection \<open>Loading rows as entities\<close>

definition load_offer :: "relation list \<Rightarrow> offer \<Rightarrow> offer" where
  "load_offer rels x = (if OffersUser \<in> set rels then x else x\<lparr>offer_user := None\<rparr>)"

definition load :: "relation list \<Rightarrow> wish_row \<Rightarrow> wish" where
  "load rels r =
     \<lparr>title = title r, description = description r, link = link r, image_url = image_url r,
      price = price r, wish_id = wish_id r, createdAt = createdAt r, updatedAt = updatedAt r,
      raised = raised r, copied = copied r,
      owner = (if Owner \<in> set rels then Some (owner r) else None),
      offers = (if Offers \<in> set rels then Some (map (load_offer rels) (offers r)) else None)\<rparr>"

subsection \<open>Repository operations\<close>

text \<open>
  The repository injected into the service is bound to the data source's default entity
  manager. Each of its operations is one statement, executed and committed on its own.
\<close>

definition repo_findOne :: "nat \<Rightarrow> relation list \<Rightarrow> wish option io" where
  "repo_findOne i rels =
     await (store_call (FindOne i))
       (\<lambda>_ w. (Inr (map_option (load rels) (find (\<lambda>r. wish_id r = i) (table w))), w))"

definition repo_findOneBy :: "nat \<Rightarrow> wish option io" where
  "repo_findOneBy i = repo_findOne i []"

record find_options =
  where_id_in :: "nat list option"
  order :: "order_by option"
  take_limit :: "nat option"
  relations :: "relation list"

definition matching :: "nat list option \<Rightarrow> wish_row list \<Rightarrow> wish_row list" where
  "matching wh rows =
     (case wh of None \<Rightarrow> rows | Some ids \<Rightarrow> filter (\<lambda>r. wish_id r \<in> set ids) rows)"

definition ordered :: "order_by option \<Rightarrow> wish_row list \<Rightarrow> wish_row list" where
  "ordered ob rows =
     (case ob of
        None \<Rightarrow> rows
      | Some CreatedAt_DESC \<Rightarrow> rev (sort_key createdAt rows)
      | Some Copied_DESC \<Rightarrow> rev (sort_key copied rows))"

definition limit :: "nat option \<Rightarrow> wish_row list \<Rightarrow> wish_row list" where
  "limit n rows = (case n of None \<Rightarrow> rows | Some k \<Rightarrow> take k rows)"

definition repo_find :: "find_options \<Rightarrow> wish list io" where
  "repo_find opts =
     await (store_call Find)
       (\<lambda>_ w. (Inr (map (load (relations opts))
                      (limit (take_limit opts)
                        (ordered (order opts) (matching (where_id_in opts) (table w))))), w))"

text \<open>
  Modelled from the spec: the column defaults of the \<^verbatim>\<open>Wish\<close> entity (wish.entity is not
  among the sources). "Persists a new record with owner set to the caller, raised = 0,
  copied = 0"; the id and both timestamps are store-assigned. \<^verbatim>\<open>save\<close> hands back the
  object it was given, completed with the generated columns: the owner is there, the
  offers relation is not.
\<close>

definition new_row :: "wish_data \<Rightarrow> user \<Rightarrow> world \<Rightarrow> wish_row" where
  "new_row d u w =
     \<lparr>title = title d, description = description d, link = link d, image_url = image_url d,
      price = price d, wish_id = next_id w, createdAt = clock w, updatedAt = clock w,
      raised = 0, copied = 0, owner = u, offers = []\<rparr>"

definition repo_save :: "wish_data \<Rightarrow> user \<Rightarrow> wish io" where
  "repo_save d u =
     await (store_call Save)
       (\<lambda>_ w. (Inr (load [Owner] (new_row d u w)),
               w\<lparr>table := table w @ [new_row d u w], next_id := Suc (next_id w)\<rparr>))"

text \<open>
  A partial update writes the columns named in the partial entity, on every row with the
  given id; a row that does not exist is not an error.
\<close>

definition assign :: "partial_wish \<Rightarrow> wish_row \<Rightarrow> wish_row" where
  "assign p r =
     r\<lparr>title := (case set_title p of None \<Rightarrow> title r | Some v \<Rightarrow> v),
       description := (case set_description p of None \<Rightarrow> description r | Some v \<Rightarrow> v),
       link := (case set_link p of None \<Rightarrow> link r | Some v \<Rightarrow> v),
       image_url := (case set_image_url p of None \<Rightarrow> image_url r | Some v \<Rightarrow> v),
       price := (case set_price p of None \<Rightarrow> price r | Some v \<Rightarrow> v),
       raised := (case set_raised p of None \<Rightarrow> raised r | Some v \<Rightarrow> v),
       copied := (case set_copied p of None \<Rightarrow> copied r | Some v \<Rightarrow> v)\<rparr>"

text \<open>
  Modelled from the spec: the timestamp columns of the \<^verbatim>\<open>Wish\<close> entity (wish.entity is
  not among the sources), "createdAt/updatedAt (store-assigned timestamps)". The store
  stamps \<open>updatedAt\<close> with its current time on every row it updates, whatever the partial
  entity names, as it stamps both timestamps on insertion.
\<close>

definition written :: "partial_wish \<Rightarrow> nat \<Rightarrow> wish_row \<Rightarrow> wish_row" where
  "written p now r = (assign p r)\<lparr>updatedAt := now\<rparr>"

definition repo_update :: "nat \<Rightarrow> partial_wish \<Rightarrow> unit io" where
  "repo_update i p =
     await (store_call (Update i))
       (\<lambda>_ w. (Inr (),
               w\<lparr>table := map (\<lambda>r. if wish_id r = i then written p (clock w) r else r)
                              (table w)\<rparr>))"

definition repo_delete :: "nat \<Rightarrow> unit io" where
  "repo_delete i =
     await (store_call (Delete i))
       (\<lambda>_ w. (Inr (), w\<lparr>table := filter (\<lambda>r. wish_id r \<noteq> i) (table w)\<rparr>))"

subsection \<open>The query runner\<close>

text \<open>
  \<^verbatim>\<open>dataSource.createQueryRunner()\<close> reserves a connection of its own. A transaction
  started on the runner covers the statements issued through the runner. \<^verbatim>\<open>copy\<close> issues
  none: every read and write inside its \<^verbatim>\<open>try\<close> block goes through
  \<^verbatim>\<open>this.wishRepository\<close>, so the runner's transaction stays empty, and committing it or
  rolling it back ends it without touching the table.
\<close>

definition createQueryRunner :: "unit io" where
  "createQueryRunner w = (Inr (), w\<lparr>runner_connected := False, transaction := False\<rparr>)"

definition connect :: "unit io" where
  "connect = await (store_call Connect) (\<lambda>_ w. (Inr (), w\<lparr>runner_connected := True\<rparr>))"

definition startTransaction :: "unit io" where
  "startTransaction =
     await (store_call StartTransaction) (\<lambda>_ w. (Inr (), w\<lparr>transaction := True\<rparr>))"

definition commitTransaction :: "unit io" where
  "commitTransaction =
     await (store_call CommitTransaction) (\<lambda>_ w. (Inr (), w\<lparr>transaction := False\<rparr>))"

definition rollbackTransaction :: "unit io" where
  "rollbackTransaction =
     await (store_call RollbackTransaction) (\<lambda>_ w. (Inr (), w\<lparr>transaction := False\<rparr>))"

definition release :: "unit io" where
  "release = await (store_call Release) (\<lambda>_ w. (Inr (), w\<lparr>runner_connected := False\<rparr>))"


section \<open>WishesService\<close>

text \<open>
  \<^verbatim>\<open>Wish.toJSON\<close> belongs to the entity class, which is not among the sources: it is the
  parameter \<open>toJSON\<close> of every operation that calls it. \<^verbatim>\<open>create\<close> does not call it and
  returns what \<^verbatim>\<open>save\<close> returns.
\<close>

definition create :: "wish_data \<Rightarrow> user \<Rightarrow> wish io" where
  "create createWishDto user = repo_save createWishDto user"

definition findById :: "(wish \<Rightarrow> 'j) \<Rightarrow> nat \<Rightarrow> 'j io" where
  "findById toJSON i =
     await (repo_findOne i [Owner, Offers, OffersUser])
       (\<lambda>wish. case wish of
          None \<Rightarrow> throw (NotFoundException NotFound)
        | Some e \<Rightarrow> resolve (toJSON e))"

definition findLatestWishes :: "(wish \<Rightarrow> 'j) \<Rightarrow> wishes_limits \<Rightarrow> 'j list io" where
  "findLatestWishes toJSON WishesLimits =
     await (repo_find \<lparr>where_id_in = None, order = Some CreatedAt_DESC,
                       take_limit = Some (latest WishesLimits),
                       relations = [Owner, Offers, OffersUser]\<rparr>)
       (\<lambda>wishes. resolve (map toJSON wishes))"

definition findTopWishes :: "(wish \<Rightarrow> 'j) \<Rightarrow> wishes_limits \<Rightarrow> 'j list io" where
  "findTopWishes toJSON WishesLimits =
     await (repo_find \<lparr>where_id_in = None, order = Some Copied_DESC,
                       take_limit = Some (mostCopied WishesLimits),
                       relations = [Owner, Offers, OffersUser]\<rparr>)
       (\<lambda>wishes. resolve (map toJSON wishes))"

definition update :: "(wish \<Rightarrow> 'j) \<Rightarrow> nat \<Rightarrow> update_wish_dto \<Rightarrow> nat \<Rightarrow> 'j io" where
  "update toJSON wishId updateWishDto userId =
     await (repo_findOne wishId [Owner])
       (\<lambda>wish. case wish of
          None \<Rightarrow> throw (NotFoundException NotFound)
        | Some e \<Rightarrow>
            (case owner e of
               None \<Rightarrow> throw TypeError
             | Some own \<Rightarrow>
                 if user_id own \<noteq> userId then throw (BadRequestException NotOwner)
                 else
                   let isPriceChanged =
                         (new_price updateWishDto \<noteq> None
                          \<and> new_price updateWishDto \<noteq> Some (price e));
                       hasContributions = (raised e > 0)
                   in
                     if isPriceChanged \<and> hasContributions
                     then throw (BadRequestException CannotChangePrice)
                     else
                       await (repo_update wishId (dto_columns updateWishDto))
                         (\<lambda>_. await (repo_findOneBy wishId)
                            (\<lambda>updatedWish. case updatedWish of
                               None \<Rightarrow> throw (NotFoundException NotFound)
                             | Some e' \<Rightarrow> resolve (toJSON e')))))"

definition remove :: "(wish \<Rightarrow> 'j) \<Rightarrow> nat \<Rightarrow> nat \<Rightarrow> 'j io" where
  "remove toJSON wishId userId =
     await (repo_findOne wishId [Owner])
       (\<lambda>wish. case wish of
          None \<Rightarrow> throw (NotFoundException NotFound)
        | Some e \<Rightarrow>
            (case owner e of
               None \<Rightarrow> throw TypeError
             | Some own \<Rightarrow>
                 if user_id own \<noteq> userId then throw (BadRequestException NotOwner)
                 else await (repo_delete wishId) (\<lambda>_. resolve (toJSON e))))"

text \<open>
  The body of the \<^verbatim>\<open>try\<close> block of \<^verbatim>\<open>copy\<close>. The re-read of the source is destructured
  as it comes: on \<^verbatim>\<open>null\<close> the destructuring throws a \<open>TypeError\<close>.
\<close>

definition copy_block :: "(wish \<Rightarrow> 'j) \<Rightarrow> nat \<Rightarrow> user \<Rightarrow> 'j io" where
  "copy_block toJSON wishId user =
     await (repo_findOneBy wishId)
       (\<lambda>found. case found of
          None \<Rightarrow> throw TypeError
        | Some e \<Rightarrow>
            let wishData = wish_data.truncate e in
            await (repo_update wishId (no_change\<lparr>set_copied := Some (copied e + 1)\<rparr>))
              (\<lambda>_. await (create wishData user)
                 (\<lambda>newWish. await (repo_findOne (wish_id newWish) [Owner, Offers, OffersUser])
                    (\<lambda>savedWish. case savedWish of
                       None \<Rightarrow> throw (NotFoundException NotFound)
                     | Some s \<Rightarrow> await commitTransaction (\<lambda>_. resolve (toJSON s))))))"

definition copy :: "(wish \<Rightarrow> 'j) \<Rightarrow> nat \<Rightarrow> user \<Rightarrow> 'j io" where
  "copy toJSON wishId user =
     await (repo_findOne wishId [Owner])
       (\<lambda>originalWish. case originalWish of
          None \<Rightarrow> throw (NotFoundException NotFound)
        | Some _ \<Rightarrow>
            await createQueryRunner
              (\<lambda>_. await connect
                 (\<lambda>_. await startTransaction
                    (\<lambda>_. try_finally
                           (try_catch (copy_block toJSON wishId user)
                              (\<lambda>err. await rollbackTransaction (\<lambda>_. throw err)))
                           release))))"

definition getManyByIds :: "(wish \<Rightarrow> 'j) \<Rightarrow> nat list \<Rightarrow> 'j list io" where
  "getManyByIds toJSON wishIds =
     (if length wishIds = 0 then resolve []
      else
        await (repo_find \<lparr>where_id_in = Some wishIds, order = None, take_limit = None,
                          relations = []\<rparr>)
          (\<lambda>wishes. resolve (map toJSON wishes)))"

definition updateRaised :: "(wish \<Rightarrow> 'j) \<Rightarrow> nat \<Rightarrow> rat \<Rightarrow> 'j io" where
  "updateRaised toJSON i raisedAmount =
     await (repo_update i (no_change\<lparr>set_raised := Some raisedAmount\<rparr>))
       (\<lambda>_. await (repo_findOneBy i)
          (\<lambda>updatedWish. case updatedWish of
             None \<Rightarrow> throw (NotFoundException NotFound)
           | Some e \<Rightarrow> resolve (toJSON e)))"



section \<open>A small store for concrete runs\<close>

text \<open>
  Two users, two wishes of the first user, and a few environments: a quiet one, one in
  which the \<^verbatim>\<open>save\<close> inside \<^verbatim>\<open>copy\<close> fails, one in which another request deletes
  the source wish between the first load and the re-read inside the block, and one in which
  the freshly created copy is deleted before it is read back. The store's time is 5 and
  its next id is 8: \<open>bobs_mug\<close> and \<open>bobs_lamp\<close> are the rows the second user gets by
  creating the mug, respectively by copying the lamp.
\<close>

definition alice :: user where "alice = \<lparr>user_id = 1, username = ''alice''\<rparr>"

definition bob :: user where "bob = \<lparr>user_id = 2, username = ''bob''\<rparr>"

definition lamp :: wish_row where
  "lamp = \<lparr>title = ''lamp'', description = ''desk lamp'', link = ''shop/lamp'',
     image_url = ''img/lamp'', price = 150, wish_id = 7, createdAt = 3, updatedAt = 3,
     raised = 20, copied = 0, owner = alice, offers = []\<rparr>"

definition kettle :: wish_row where
  "kettle = \<lparr>title = ''kettle'', description = ''tea kettle'', link = ''shop/kettle'',
     image_url = ''img/kettle'', price = 100, wish_id = 4, createdAt = 1, updatedAt = 1,
     raised = 0, copied = 2, owner = alice, offers = []\<rparr>"

definition shop :: world where
  "shop = \<lparr>table = [kettle, lamp], next_id = 8, clock = 5, runner_connected = False,
     transaction = False, script = [], trace = []\<rparr>"

definition rename_keep_price :: update_wish_dto where
  "rename_keep_price = \<lparr>new_title = Some ''reading lamp'', new_description = None,
     new_link = None, new_image_url = None, new_price = Some 150\<rparr>"

definition raise_price :: update_wish_dto where
  "raise_price = \<lparr>new_title = None, new_description = None, new_link = None,
     new_image_url = None, new_price = Some 200\<rparr>"

definition shop_save_fails :: world where
  "shop_save_fails = shop\<lparr>script := [Quiet, Quiet, Quiet, Quiet, Quiet, Fault]\<rparr>"

definition shop_source_removed :: world where
  "shop_source_removed = shop\<lparr>script := [Quiet, Quiet, Quiet, Removed 7]\<rparr>"

definition shop_copy_removed :: world where
  "shop_copy_removed = shop\<lparr>script := [Quiet, Quiet, Quiet, Removed 8]\<rparr>"

definition empty_shop :: world where
  "empty_shop = shop\<lparr>table := []\<rparr>"

definition caps :: wishes_limits where
  "caps = \<lparr>latest = 1, mostCopied = 1\<rparr>"

definition mug :: wish_data where
  "mug = \<lparr>title = ''mug'', description = ''tea mug'', link = ''shop/mug'',
     image_url = ''img/mug'', price = 10\<rparr>"

definition bobs_mug :: wish_row where
  "bobs_mug = \<lparr>title = ''mug'', description = ''tea mug'', link = ''shop/mug'',
     image_url = ''img/mug'', price = 10, wish_id = 8, createdAt = 5, updatedAt = 5,
     raised = 0, copied = 0, owner = bob, offers = []\<rparr>"

definition bobs_lamp :: wish_row where
  "bobs_lamp = \<lparr>title = ''lamp'', description = ''desk lamp'', link = ''shop/lamp'',
     image_url = ''img/lamp'', price = 150, wish_id = 8, createdAt = 5, updatedAt = 5,
     raised = 0, copied = 0, owner = bob, offers = []\<rparr>"


section \<open>Store operations in a quiet environment\<close>

text \<open>
  With an empty script every store call succeeds and nothing interferes; each repository
  operation then has one outcome, written out below.
\<close>

lemma store_call_quiet:
  "script w = [] \<Longrightarrow> store_call c w = (Inr (), w\<lparr>trace := trace w @ [c]\<rparr>)"
  by (simp add: store_call_def)

lemma repo_findOne_quiet:
  "script w = [] \<Longrightarrow>
     repo_findOne i rels w =
       (Inr (map_option (load rels) (find (\<lambda>r. wish_id r = i) (table w))),
        w\<lparr>trace := trace w @ [FindOne i]\<rparr>)"
  by (simp add: repo_findOne_def await_def store_call_quiet)

lemma repo_update_quiet:
  "script w = [] \<Longrightarrow>
     repo_update i p w =
       (Inr (), w\<lparr>trace := trace w @ [Update i],
                  table := map (\<lambda>r. if wish_id r = i then written p (clock w) r else r)
                             (table w)\<rparr>)"
  by (simp add: repo_update_def await_def store_call_quiet)

lemma repo_delete_quiet:
  "script w = [] \<Longrightarrow>
     repo_delete i w =
       (Inr (), w\<lparr>trace := trace w @ [Delete i],
                  table := filter (\<lambda>r. wish_id r \<noteq> i) (table w)\<rparr>)"
  by (simp add: repo_delete_def await_def store_call_quiet)

lemma repo_save_quiet:
  "script w = [] \<Longrightarrow>
     repo_save d u w =
       (Inr (load [Owner] (new_row d u w)),
        w\<lparr>trace := trace w @ [Save], table := table w @ [new_row d u w],
          next_id := Suc (next_id w)\<rparr>)"
  by (simp add: repo_save_def await_def store_call_quiet new_row_def)

lemma repo_find_quiet:
  "script w = [] \<Longrightarrow>
     repo_find opts w =
       (Inr (map (load (relations opts))
               (limit (take_limit opts)
                  (ordered (order opts) (matching (where_id_in opts) (table w))))),
        w\<lparr>trace := trace w @ [Find]\<rparr>)"
  by (simp add: repo_find_def await_def store_call_quiet)


subsection \<open>Columns of loaded, created and updated rows\<close>

lemma load_columns [simp]:
  "wish_id (load rels r) = wish_id r" "copied (load rels r) = copied r"
  "raised (load rels r) = raised r" "price (load rels r) = price r"
  "title (load rels r) = title r" "description (load rels r) = description r"
  "link (load rels r) = link r" "image_url (load rels r) = image_url r"
  "createdAt (load rels r) = createdAt r" "updatedAt (load rels r) = updatedAt r"
  "wish_data.truncate (load rels r) = wish_data.truncate r"
  by (simp_all add: load_def wish_data.truncate_def)

lemma wish_id_new_row [simp]: "wish_id (new_row d u w) = next_id w"
  by (simp add: new_row_def)

lemma wish_id_written [simp]: "wish_id (written p now r) = wish_id r"
  by (simp add: written_def assign_def)

lemma written_only_copied [simp]:
  "written (no_change\<lparr>set_copied := Some n\<rparr>) now r = r\<lparr>copied := n, updatedAt := now\<rparr>"
  by (simp add: written_def assign_def no_change_def)

lemma written_dto_columns:
  "written (dto_columns dto) now r =
     r\<lparr>title := (case new_title dto of None \<Rightarrow> title r | Some v \<Rightarrow> v),
       description := (case new_description dto of None \<Rightarrow> description r | Some v \<Rightarrow> v),
       link := (case new_link dto of None \<Rightarrow> link r | Some v \<Rightarrow> v),
       image_url := (case new_image_url dto of None \<Rightarrow> image_url r | Some v \<Rightarrow> v),
       price := (case new_price dto of None \<Rightarrow> price r | Some v \<Rightarrow> v),
       updatedAt := now\<rparr>"
  by (simp add: written_def assign_def dto_columns_def)


subsection \<open>Looking a row up by id\<close>

lemma find_after_update:
  "find (\<lambda>r. wish_id r = i)
        (map (\<lambda>r. if wish_id r = i then written p now r else r) rows) =
     map_option (written p now) (find (\<lambda>r. wish_id r = i) rows)"
  by (induction rows) simp_all

lemma find_after_map:
  assumes "find (\<lambda>x. wish_id x = i) rows = Some W"
    and "\<And>x. wish_id (f x) = wish_id x"
  shows "find (\<lambda>x. wish_id x = i) (map (\<lambda>x. if wish_id x = i then f x else x) rows)
           = Some (f W)"
  using assms by (induction rows) (auto split: if_splits)

lemma find_fresh_id:
  assumes "\<forall>x\<in>set rows. wish_id x < n" and "wish_id new = n"
  shows "find (\<lambda>x. wish_id x = n) (rows @ [new]) = Some new"
  using assms by (induction rows) auto

lemma find_old_id:
  assumes "find (\<lambda>x. wish_id x = i) rows = Some r"
  shows "find (\<lambda>x. wish_id x = i) (rows @ [new]) = Some r"
  using assms by (induction rows) (auto split: if_splits)

lemma find_removed:
  "find (\<lambda>r. wish_id r = i) (filter (\<lambda>r. wish_id r \<noteq> i) rows) = None"
  by (induction rows) simp_all

lemma shop_finds:
  "find (\<lambda>r. wish_id r = 7) (table shop) = Some lamp"
  "find (\<lambda>r. wish_id r = 4) (table shop) = Some kettle"
  by (simp_all add: shop_def lamp_def kettle_def)


section \<open>Store operations in any environment\<close>

text \<open>
  Whatever the script says, a store call is logged, leaves the id sequence alone, and
  either succeeds or fails with \<open>StoreError\<close>.
\<close>

lemma store_call_result:
  assumes "store_call c w = (x, w')"
  shows "trace w' = trace w @ [c] \<and> next_id w' = next_id w
       \<and> (x = Inr () \<or> x = Inl StoreError)"
  using assms by (auto simp add: store_call_def Let_def split: list.splits event.splits)

lemma repo_findOne_step:
  assumes "repo_findOne i rels w = (x, w')"
  shows "trace w' = trace w @ [FindOne i] \<and> next_id w' = next_id w
       \<and> (x = Inl StoreError
          \<or> x = Inr (map_option (load rels) (find (\<lambda>r. wish_id r = i) (table w'))))"
  using assms
  by (cases "store_call (FindOne i) w")
     (auto simp add: repo_findOne_def await_def dest!: store_call_result)

lemma repo_update_step:
  assumes "repo_update i p w = (x, w')"
  shows "trace w' = trace w @ [Update i] \<and> next_id w' = next_id w
       \<and> (x = Inl StoreError \<or> x = Inr ())"
  using assms
  by (cases "store_call (Update i) w")
     (auto simp add: repo_update_def await_def dest!: store_call_result)

lemma repo_save_step:
  assumes "repo_save d u w = (x, w')"
  shows "trace w' = trace w @ [Save]
       \<and> (case x of
            Inl err \<Rightarrow> err = StoreError \<and> next_id w' = next_id w
          | Inr e \<Rightarrow> wish_id e = next_id w \<and> next_id w' = Suc (next_id w))"
  using assms
  by (cases "store_call Save w")
     (auto simp add: repo_save_def await_def dest!: store_call_result)

lemma commitTransaction_step:
  assumes "commitTransaction w = (x, w')"
  shows "x = Inl StoreError \<or> x = Inr ()"
  using assms
  by (cases "store_call CommitTransaction w")
     (auto simp add: commitTransaction_def await_def dest!: store_call_result)


section \<open>Runs of update, remove and copy\<close>

lemma update_not_owner:
  assumes "script w = []"
    and "find (\<lambda>r. wish_id r = wishId) (table w) = Some r"
    and "user_id (owner r) \<noteq> userId"
  shows "update toJSON wishId dto userId w =
           (Inl (BadRequestException NotOwner), w\<lparr>trace := trace w @ [FindOne wishId]\<rparr>)"
  using assms by (simp add: update_def await_def repo_findOne_quiet load_def throw_def)

lemma remove_not_owner:
  assumes "script w = []"
    and "find (\<lambda>r. wish_id r = wishId) (table w) = Some r"
    and "user_id (owner r) \<noteq> userId"
  shows "remove toJSON wishId userId w =
           (Inl (BadRequestException NotOwner), w\<lparr>trace := trace w @ [FindOne wishId]\<rparr>)"
  using assms by (simp add: remove_def await_def repo_findOne_quiet load_def throw_def)

lemma update_price_locked:
  assumes "script w = []"
    and "find (\<lambda>r. wish_id r = wishId) (table w) = Some r"
    and "user_id (owner r) = userId"
    and "new_price dto = Some p" and "p \<noteq> price r" and "raised r > 0"
  shows "update toJSON wishId dto userId w =
           (Inl (BadRequestException CannotChangePrice),
            w\<lparr>trace := trace w @ [FindOne wishId]\<rparr>)"
  using assms by (simp add: update_def await_def repo_findOne_quiet load_def throw_def)

lemma update_applies:
  assumes "script w = []"
    and "find (\<lambda>r. wish_id r = wishId) (table w) = Some r"
    and "user_id (owner r) = userId"
    and "new_price dto = None \<or> new_price dto = Some (price r) \<or> raised r \<le> 0"
  shows "update toJSON wishId dto userId w =
           (Inr (toJSON (load [] (written (dto_columns dto) (clock w) r))),
            w\<lparr>trace := trace w @ [FindOne wishId, Update wishId, FindOne wishId],
              table := map (\<lambda>x. if wish_id x = wishId
                                  then written (dto_columns dto) (clock w) x else x)
                         (table w)\<rparr>)"
  using assms
  by (auto simp add: update_def await_def repo_findOne_quiet repo_findOneBy_def
        repo_update_quiet find_after_update load_def throw_def resolve_def)

lemma copy_quiet:
  assumes "script w = []"
    and "find (\<lambda>x. wish_id x = wishId) (table w) = Some r"
    and "\<forall>x\<in>set (table w). wish_id x < next_id w"
  shows "copy toJSON wishId user w =
           (Inr (toJSON (load [Owner, Offers, OffersUser]
                           (new_row (wish_data.truncate r) user w))),
            w\<lparr>runner_connected := False, transaction := False,
              trace := trace w @ [FindOne wishId, Connect, StartTransaction, FindOne wishId,
                                  Update wishId, Save, FindOne (next_id w),
                                  CommitTransaction, Release],
              table := map (\<lambda>x. if wish_id x = wishId
                                  then x\<lparr>copied := Suc (copied r), updatedAt := clock w\<rparr>
                                  else x) (table w)
                       @ [new_row (wish_data.truncate r) user w],
              next_id := Suc (next_id w)\<rparr>)"
proof -
  let ?bumped = "map (\<lambda>x. if wish_id x = wishId
                           then x\<lparr>copied := Suc (copied r), updatedAt := clock w\<rparr>
                           else x) (table w)"
  let ?new = "new_row (wish_data.truncate r) user w"
  have fresh: "\<forall>x\<in>set ?bumped. wish_id x < next_id w"
    using assms(3) by auto
  have reread: "find (\<lambda>x. wish_id x = next_id w) (?bumped @ [?new]) = Some ?new"
    by (rule find_fresh_id [OF fresh]) (simp add: new_row_def)
  have nr: "\<And>t tb rc tr. new_row (wish_data.truncate r) user
               (w\<lparr>runner_connected := rc, transaction := tr, trace := t, table := tb\<rparr>) = ?new"
    by (simp add: new_row_def)
  show ?thesis
    using assms(1,2) reread
    by (simp add: copy_def await_def repo_findOne_quiet createQueryRunner_def connect_def
        startTransaction_def store_call_quiet try_finally_def try_catch_def copy_block_def
        repo_findOneBy_def repo_update_quiet create_def repo_save_quiet nr
        commitTransaction_def release_def resolve_def Let_def cong: if_cong)
qed

lemma copy_block_null_source:
  assumes "fst (repo_findOneBy wishId w) = Inr None"
  shows "copy_block toJSON wishId user w = (Inl TypeError, snd (repo_findOneBy wishId w))"
  using assms
  by (cases "repo_findOneBy wishId w") (simp add: copy_block_def await_def throw_def)

lemma copy_block_not_found:
  assumes nf: "fst (copy_block toJSON wishId user w) = Inl (NotFoundException m)"
  shows "trace (snd (copy_block toJSON wishId user w)) =
           trace w @ [FindOne wishId, Update wishId, Save, FindOne (next_id w)]"
proof -
  obtain x1 w1 where s1: "repo_findOne wishId [] w = (x1, w1)" by force
  note r1 = repo_findOne_step [OF s1]
  show ?thesis
  proof (cases x1)
    case (Inl e)
    with nf s1 r1 show ?thesis
      by (simp add: copy_block_def repo_findOneBy_def await_def)
  next
    case found: (Inr v)
    show ?thesis
    proof (cases v)
      case None
      with nf s1 found show ?thesis
        by (simp add: copy_block_def repo_findOneBy_def await_def throw_def)
    next
      case (Some e)
      obtain x2 w2 where s2:
        "repo_update wishId (no_change\<lparr>set_copied := Some (copied e + 1)\<rparr>) w1 = (x2, w2)"
        by force
      note r2 = repo_update_step [OF s2]
      obtain x3 w3 where s3: "repo_save (wish_data.truncate e) user w2 = (x3, w3)" by force
      note r3 = repo_save_step [OF s3]
      have blk: "copy_block toJSON wishId user w =
          (case x2 of Inl err \<Rightarrow> (Inl err, w2)
           | Inr _ \<Rightarrow>
              (case x3 of Inl err \<Rightarrow> (Inl err, w3)
               | Inr newWish \<Rightarrow>
                   await (repo_findOne (wish_id newWish) [Owner, Offers, OffersUser])
                     (\<lambda>savedWish. case savedWish of
                        None \<Rightarrow> throw (NotFoundException NotFound)
                      | Some s \<Rightarrow> await commitTransaction (\<lambda>_. resolve (toJSON s))) w3))"
        using s1 found Some s2 s3
        by (simp add: copy_block_def repo_findOneBy_def await_def create_def Let_def
              split: sum.splits)
      from nf blk r2 obtain u where x2: "x2 = Inr u" by (cases x2) auto
      from nf blk x2 r3 obtain newWish where x3: "x3 = Inr newWish"
        and nid: "wish_id newWish = next_id w2" by (cases x3) auto
      obtain x4 w4 where s4:
        "repo_findOne (wish_id newWish) [Owner, Offers, OffersUser] w3 = (x4, w4)" by force
      note r4 = repo_findOne_step [OF s4]
      have tr: "trace w4 = trace w @ [FindOne wishId, Update wishId, Save, FindOne (next_id w)]"
        using r1 r2 r3 r4 nid by simp
      show ?thesis
      proof (cases x4)
        case (Inl err)
        with nf blk x2 x3 s4 r4 show ?thesis by (simp add: await_def)
      next
        case saved: (Inr sv)
        show ?thesis
        proof (cases sv)
          case None
          with blk x2 x3 s4 saved tr show ?thesis by (simp add: await_def throw_def)
        next
          case (Some s)
          obtain x5 w5 where s5: "commitTransaction w4 = (x5, w5)" by force
          from commitTransaction_step [OF s5] nf blk x2 x3 s4 saved Some s5
          show ?thesis by (auto simp add: await_def resolve_def)
        qed
      qed
    qed
  qed
qed

lemma copy_source_removed:
  assumes "find (\<lambda>x. wish_id x = wishId) (table w) \<noteq> None"
    and "script w = [Quiet, Quiet, Quiet, Removed wishId]"
  shows "copy toJSON wishId user w =
           (Inl TypeError,
            w\<lparr>runner_connected := False, transaction := False, script := [],
              table := filter (\<lambda>r. wish_id r \<noteq> wishId) (table w),
              trace := trace w @ [FindOne wishId, Connect, StartTransaction, FindOne wishId,
                                  RollbackTransaction, Release]\<rparr>)"
  using assms
  by (auto simp add: copy_def copy_block_def repo_findOne_def repo_findOneBy_def
        createQueryRunner_def connect_def startTransaction_def rollbackTransaction_def
        release_def await_def try_catch_def try_finally_def throw_def store_call_def
        find_removed)

lemma limit_ordered_props:
  fixes key :: "wish_row \<Rightarrow> nat"
  shows "length (take n (rev (sort_key key rows))) = min n (length rows)"
    and "sorted_wrt (\<lambda>a b. key b \<le> key a) (take n (rev (sort_key key rows)))"
    and "set (take n (rev (sort_key key rows))) \<subseteq> set rows"
proof -
  show "length (take n (rev (sort_key key rows))) = min n (length rows)"
    by (simp add: min.commute)
  have "sorted (map key (sort_key key rows))" by (rule sorted_sort_key)
  then have "sorted_wrt (\<lambda>a b. key a \<le> key b) (sort_key key rows)"
    by (simp add: sorted_wrt_map)
  then have "sorted_wrt (\<lambda>a b. key b \<le> key a) (rev (sort_key key rows))"
    by (simp add: sorted_wrt_rev)
  then show "sorted_wrt (\<lambda>a b. key b \<le> key a) (take n (rev (sort_key key rows)))"
    by (rule sorted_wrt_take)
  show "set (take n (rev (sort_key key rows))) \<subseteq> set rows"
    using set_take_subset [of n "rev (sort_key key rows)"] by simp
qed

lemma limit_ordered_rest:
  fixes key :: "wish_row \<Rightarrow> nat"
  shows "\<exists>rest. mset (take n (rev (sort_key key rows)) @ rest) = mset rows
           \<and> (\<forall>x\<in>set (take n (rev (sort_key key rows))). \<forall>y\<in>set rest. key y \<le> key x)"
proof -
  let ?xs = "rev (sort_key key rows)"
  have "sorted (map key (sort_key key rows))" by (rule sorted_sort_key)
  then have "sorted_wrt (\<lambda>a b. key b \<le> key a) ?xs"
    by (simp add: sorted_wrt_map sorted_wrt_rev)
  then have "sorted_wrt (\<lambda>a b. key b \<le> key a) (take n ?xs @ drop n ?xs)"
    by simp
  then have "\<forall>x\<in>set (take n ?xs). \<forall>y\<in>set (drop n ?xs). key y \<le> key x"
    unfolding sorted_wrt_append by blast
  moreover have "mset (take n ?xs @ drop n ?xs) = mset rows"
    by simp
  ultimately show ?thesis by blast
qed


section \<open>The claims\<close>

subsection \<open>C1: a failure inside the block of copy\<close>

text \<open>
  C1 says that after any failure inside the \<^verbatim>\<open>try\<close> block of \<^verbatim>\<open>copy\<close> the counter of
  the source wish and the store as a whole are back in their state before the call. The
  run below is the one the specification itself names: the creation of the new record is
  made to fail. The lamp has \<open>copied = 0\<close> before the call. The call ends with the store's
  error, after \<^verbatim>\<open>rollbackTransaction\<close> and \<^verbatim>\<open>release\<close>, and the lamp is left in the table
  with \<open>copied = 1\<close> and no copy beside it: the increment went through the repository, not
  through the runner whose transaction is rolled back.
\<close>

theorem copy_failed_save_keeps_increment:
  "copied lamp = 0
   \<and> copy id 7 bob shop_save_fails =
       (Inl StoreError,
        shop\<lparr>table := [kettle, lamp\<lparr>copied := 1, updatedAt := 5\<rparr>],
             trace := [FindOne 7, Connect, StartTransaction, FindOne 7, Update 7, Save,
                       RollbackTransaction, Release]\<rparr>)"
  by code_simp


subsection \<open>C2: a successful copy\<close>

text \<open>
  C2, as amended: for an existing wish \<open>W\<close> and any user \<open>B\<close>, in a run without store
  failure or interference, \<^verbatim>\<open>copy\<close> returns the projection of a new row with an id not
  used before, owned by \<open>B\<close>, with the title, description, link, image and price of \<open>W\<close>
  and with \<open>raised = 0\<close> and \<open>copied = 0\<close>. Afterwards the table is the old one with the new
  row appended and with \<open>copied\<close> of \<open>W\<close> one higher and \<open>updatedAt\<close> of \<open>W\<close> set to the store's
  time; no other column of \<open>W\<close> and no row with another id is changed. The store's ids are
  below its id sequence.
\<close>

theorem copy_creates_and_counts:
  assumes "script w = []"
    and "\<forall>x\<in>set (table w). wish_id x < next_id w"
    and "find (\<lambda>x. wish_id x = wishId) (table w) = Some W"
  shows "\<exists>n row w'. copy toJSON wishId B w = (Inr (toJSON n), w')
       \<and> n = load [Owner, Offers, OffersUser] row
       \<and> wish_id row \<notin> wish_id ` set (table w)
       \<and> owner row = B
       \<and> title row = title W \<and> description row = description W \<and> link row = link W
       \<and> image_url row = image_url W \<and> price row = price W
       \<and> raised row = 0 \<and> copied row = 0
       \<and> table w' =
           map (\<lambda>x. if wish_id x = wishId
                     then x\<lparr>copied := copied W + 1, updatedAt := clock w\<rparr> else x) (table w)
           @ [row]
       \<and> find (\<lambda>x. wish_id x = wishId) (table w') =
           Some (W\<lparr>copied := copied W + 1, updatedAt := clock w\<rparr>)"
proof -
  let ?row = "new_row (wish_data.truncate W) B w"
  let ?bumped = "map (\<lambda>x. if wish_id x = wishId
                           then x\<lparr>copied := copied W + 1, updatedAt := clock w\<rparr> else x)
                   (table w)"
  have fresh: "wish_id ?row \<notin> wish_id ` set (table w)"
    using assms(2) by auto
  have cols: "owner ?row = B" "title ?row = title W" "description ?row = description W"
    "link ?row = link W" "image_url ?row = image_url W" "price ?row = price W"
    "raised ?row = 0" "copied ?row = 0"
    by (simp_all add: new_row_def wish_data.truncate_def)
  have "find (\<lambda>x. wish_id x = wishId) ?bumped
          = Some (W\<lparr>copied := copied W + 1, updatedAt := clock w\<rparr>)"
    using assms(3) by (rule find_after_map) simp
  then have stored: "find (\<lambda>x. wish_id x = wishId) (?bumped @ [?row])
                      = Some (W\<lparr>copied := copied W + 1, updatedAt := clock w\<rparr>)"
    by (rule find_old_id)
  have bumped: "?bumped = map (\<lambda>x. if wish_id x = wishId
                                    then x\<lparr>copied := Suc (copied W), updatedAt := clock w\<rparr>
                                    else x) (table w)"
    by (simp cong: if_cong)
  show ?thesis
    using fresh cols stored
    by (simp add: copy_quiet [OF assms(1) assms(3) assms(2)] bumped)
qed

theorem copy_creates_and_counts_witness:
  "\<exists>n row w'. copy id 7 bob shop = (Inr (id n), w')
       \<and> n = load [Owner, Offers, OffersUser] row
       \<and> wish_id row \<notin> wish_id ` set (table shop)
       \<and> owner row = bob
       \<and> title row = title lamp \<and> description row = description lamp \<and> link row = link lamp
       \<and> image_url row = image_url lamp \<and> price row = price lamp
       \<and> raised row = 0 \<and> copied row = 0
       \<and> table w' =
           map (\<lambda>x. if wish_id x = 7
                     then x\<lparr>copied := copied lamp + 1, updatedAt := clock shop\<rparr> else x)
             (table shop)
           @ [row]
       \<and> find (\<lambda>x. wish_id x = 7) (table w') =
           Some (lamp\<lparr>copied := copied lamp + 1, updatedAt := clock shop\<rparr>)"
proof -
  have quiet: "script shop = []" by (simp add: shop_def)
  have below: "\<forall>x\<in>set (table shop). wish_id x < next_id shop"
    by (simp add: shop_def kettle_def lamp_def)
  show ?thesis
    by (rule copy_creates_and_counts [OF quiet below shop_finds(1)])
qed

text \<open>
  C2 as first stated has every field of \<open>W\<close> other than the counter unchanged. The lamp was
  last updated at time 3; the second user copies it at time 5. The copy succeeds, and the
  lamp is stored with \<open>copied = 1\<close> and with \<open>updatedAt = 5\<close>: the statement that raises the
  counter is an update of the row, and the store stamps the row it updates.
\<close>

theorem copy_stamps_source_example:
  "table shop = [kettle, lamp] \<and> updatedAt lamp = 3
   \<and> fst (copy id 7 bob shop) = Inr (load [Owner, Offers, OffersUser] bobs_lamp)
   \<and> table (snd (copy id 7 bob shop)) = [kettle, lamp\<lparr>copied := 1, updatedAt := 5\<rparr>, bobs_lamp]
   \<and> lamp\<lparr>copied := 1, updatedAt := 5\<rparr> \<noteq> lamp\<lparr>copied := copied lamp + 1\<rparr>"
  by code_simp


subsection \<open>C3: the price lock\<close>

text \<open>
  C3, as amended: for a wish owned by the requesting user and a patch that contains a
  price, in a run without store failure or interference, \<^verbatim>\<open>update\<close> succeeds when
  \<open>raised = 0\<close>, and the stored price is then the patch's price; it fails with
  \<open>CannotChangePrice\<close> when \<open>raised > 0\<close> and the patch's price differs from the stored
  one, and the table is then unchanged.
\<close>

theorem price_locked_when_changed:
  assumes "script w = []"
    and "find (\<lambda>r. wish_id r = wishId) (table w) = Some r"
    and "user_id (owner r) = userId"
    and "new_price dto = Some p"
  shows "(raised r = 0 \<longrightarrow>
            fst (update toJSON wishId dto userId w) =
              Inr (toJSON (load [] (written (dto_columns dto) (clock w) r)))
          \<and> find (\<lambda>x. wish_id x = wishId) (table (snd (update toJSON wishId dto userId w))) =
              Some (written (dto_columns dto) (clock w) r)
          \<and> price (written (dto_columns dto) (clock w) r) = p)
       \<and> (raised r > 0 \<and> p \<noteq> price r \<longrightarrow>
            fst (update toJSON wishId dto userId w) = Inl (BadRequestException CannotChangePrice)
          \<and> table (snd (update toJSON wishId dto userId w)) = table w)"
proof (intro conjI impI)
  assume "raised r = 0"
  then have ok: "new_price dto = None \<or> new_price dto = Some (price r) \<or> raised r \<le> 0"
    by simp
  note run = update_applies [OF assms(1-3) ok]
  show "fst (update toJSON wishId dto userId w) =
          Inr (toJSON (load [] (written (dto_columns dto) (clock w) r)))"
    by (simp add: run)
  show "find (\<lambda>x. wish_id x = wishId) (table (snd (update toJSON wishId dto userId w))) =
          Some (written (dto_columns dto) (clock w) r)"
    by (simp add: run find_after_update assms(2))
  show "price (written (dto_columns dto) (clock w) r) = p"
    by (simp add: written_dto_columns assms(4))
next
  assume locked: "raised r > 0 \<and> p \<noteq> price r"
  then have run: "update toJSON wishId dto userId w =
      (Inl (BadRequestException CannotChangePrice), w\<lparr>trace := trace w @ [FindOne wishId]\<rparr>)"
    using update_price_locked [OF assms(1-4)] by simp
  show "fst (update toJSON wishId dto userId w) = Inl (BadRequestException CannotChangePrice)"
    by (simp add: run)
  show "table (snd (update toJSON wishId dto userId w)) = table w"
    by (simp add: run)
qed


theorem price_locked_when_changed_witness:
  "fst (update id 4 raise_price 1 shop) = Inr (load [] (kettle\<lparr>price := 200, updatedAt := 5\<rparr>))
   \<and> find (\<lambda>x. wish_id x = 4) (table (snd (update id 4 raise_price 1 shop))) =
       Some (kettle\<lparr>price := 200, updatedAt := 5\<rparr>)
   \<and> fst (update id 7 raise_price 1 shop) = Inl (BadRequestException CannotChangePrice)
   \<and> table (snd (update id 7 raise_price 1 shop)) = [kettle, lamp]"
proof -
  have quiet: "script shop = []" by (simp add: shop_def)
  have k: "user_id (owner kettle) = 1" "raised kettle = 0"
    by (simp_all add: kettle_def alice_def)
  have l: "user_id (owner lamp) = 1" "raised lamp > 0 \<and> (200::rat) \<noteq> price lamp"
    by (simp_all add: lamp_def alice_def)
  have p: "new_price raise_price = Some 200" by (simp add: raise_price_def)
  have a: "written (dto_columns raise_price) (clock shop) kettle
             = kettle\<lparr>price := 200, updatedAt := 5\<rparr>"
    by (simp add: written_dto_columns raise_price_def shop_def)
  have t: "table shop = [kettle, lamp]" by (simp add: shop_def)
  from price_locked_when_changed [OF quiet shop_finds(2) k(1) p, of id]
       price_locked_when_changed [OF quiet shop_finds(1) l(1) p, of id]
  show ?thesis using k(2) l(2) by (simp add: a t)
qed


text \<open>
  C3 as first stated has the lock apply to every patch that contains a price. The lamp
  has \<open>raised = 20\<close> and price 150; a patch that renames it and carries the price 150 is
  applied.
\<close>

theorem same_price_update_example:
  "raised lamp > 0 \<and> user_id (owner lamp) = 1 \<and> new_price rename_keep_price = Some 150
   \<and> fst (update id 7 rename_keep_price 1 shop) =
        Inr (load [] (lamp\<lparr>title := ''reading lamp'', updatedAt := 5\<rparr>))"
proof -
  have quiet: "script shop = []" by (simp add: shop_def)
  have l: "user_id (owner lamp) = 1" "raised lamp > 0"
    by (simp_all add: lamp_def alice_def)
  have p: "new_price rename_keep_price = Some 150"
    by (simp add: rename_keep_price_def)
  have ok: "new_price rename_keep_price = None
      \<or> new_price rename_keep_price = Some (price lamp) \<or> raised lamp \<le> 0"
    by (simp add: rename_keep_price_def lamp_def)
  have a: "written (dto_columns rename_keep_price) (clock shop) lamp
             = lamp\<lparr>title := ''reading lamp'', updatedAt := 5\<rparr>"
    by (simp add: written_dto_columns rename_keep_price_def lamp_def shop_def)
  from update_applies [OF quiet shop_finds(1) l(1) ok, of id]
  show ?thesis by (simp add: a l p)
qed


subsection \<open>C4: update and remove by a non-owner\<close>

text \<open>
  C4: for an existing wish and a requesting user id other than its owner's, in a run
  without store failure or interference, \<^verbatim>\<open>update\<close> and \<^verbatim>\<open>remove\<close> both fail with
  \<open>NotOwner\<close> and leave the table as it was: no row changed, none deleted.
\<close>

theorem non_owner_rejected:
  assumes "script w = []"
    and "find (\<lambda>r. wish_id r = wishId) (table w) = Some r"
    and "user_id (owner r) \<noteq> userId"
  shows "fst (update toJSON wishId dto userId w) = Inl (BadRequestException NotOwner)
       \<and> table (snd (update toJSON wishId dto userId w)) = table w
       \<and> fst (remove toJSON wishId userId w) = Inl (BadRequestException NotOwner)
       \<and> table (snd (remove toJSON wishId userId w)) = table w"
  using assms by (simp add: update_not_owner remove_not_owner)


theorem non_owner_rejected_witness:
  "fst (update id 7 raise_price 2 shop) = Inl (BadRequestException NotOwner)
   \<and> table (snd (update id 7 raise_price 2 shop)) = [kettle, lamp]
   \<and> fst (remove id 7 2 shop) = Inl (BadRequestException NotOwner)
   \<and> table (snd (remove id 7 2 shop)) = [kettle, lamp]"
  using non_owner_rejected [of shop 7 lamp 2 id raise_price]
  by (simp add: shop_finds) (simp add: shop_def lamp_def alice_def)


subsection \<open>C5: the price lock and the ownership failure are told apart\<close>

text \<open>
  C5: the error of \<^verbatim>\<open>update\<close> for a changed price on a wish with \<open>raised > 0\<close> is
  never the error for a requesting user who is not the owner. Both are a
  \<open>BadRequestException\<close>; they carry different messages of \<^verbatim>\<open>WishErrors\<close>.
\<close>

theorem price_lock_error_is_not_ownership_error:
  assumes "script w1 = []"
    and "find (\<lambda>r. wish_id r = i1) (table w1) = Some r1"
    and "user_id (owner r1) \<noteq> u1"
    and "script w2 = []"
    and "find (\<lambda>r. wish_id r = i2) (table w2) = Some r2"
    and "user_id (owner r2) = u2"
    and "new_price d2 = Some p" and "p \<noteq> price r2" and "raised r2 > 0"
  shows "fst (update toJSON i1 d1 u1 w1) = Inl (BadRequestException NotOwner)
       \<and> fst (update toJSON i2 d2 u2 w2) = Inl (BadRequestException CannotChangePrice)
       \<and> fst (update toJSON i2 d2 u2 w2) \<noteq> fst (update toJSON i1 d1 u1 w1)"
  by (simp add: update_not_owner [OF assms(1-3)] update_price_locked [OF assms(4-9)])


theorem price_lock_error_is_not_ownership_error_witness:
  "fst (update id 7 raise_price 2 shop) = Inl (BadRequestException NotOwner)
   \<and> fst (update id 7 raise_price 1 shop) = Inl (BadRequestException CannotChangePrice)
   \<and> fst (update id 7 raise_price 1 shop) \<noteq> fst (update id 7 raise_price 2 shop)"
proof -
  have quiet: "script shop = []" by (simp add: shop_def)
  have l: "user_id (owner lamp) \<noteq> 2" "user_id (owner lamp) = 1"
      "(200::rat) \<noteq> price lamp" "raised lamp > 0"
    by (simp_all add: lamp_def alice_def)
  have p: "new_price raise_price = Some 200" by (simp add: raise_price_def)
  show ?thesis
    by (rule price_lock_error_is_not_ownership_error
          [OF quiet shop_finds(1) l(1) quiet shop_finds(1) l(2) p l(3) l(4)])
qed


subsection \<open>C6: create\<close>

text \<open>
  C6 says that \<^verbatim>\<open>create\<close> persists a record owned by the acting user with \<open>raised = 0\<close> and
  \<open>copied = 0\<close>, and returns the normalized projection of that wish, the shape the other
  operations return. In the run below the second user creates the mug. The row is stored
  as the claim says. The value returned is the object \<^verbatim>\<open>save\<close> hands back, the entity
  itself: \<^verbatim>\<open>create\<close> has no \<open>toJSON\<close> to apply. \<^verbatim>\<open>findById\<close> on the same record, like every
  other operation of the service, returns \<open>toJSON\<close> of the entity, for any \<open>toJSON\<close>.
\<close>

theorem create_returns_saved_entity:
  "create mug bob shop =
     (Inr (load [Owner] bobs_mug),
      shop\<lparr>table := [kettle, lamp, bobs_mug], next_id := 9, trace := [Save]\<rparr>)
   \<and> fst (findById toJSON 8 (snd (create mug bob shop))) =
       Inr (toJSON (load [Owner, Offers, OffersUser] bobs_mug))"
  by (simp add: create_def findById_def repo_save_quiet repo_findOne_quiet await_def
        resolve_def new_row_def shop_def mug_def bobs_mug_def kettle_def lamp_def)

text \<open>
  What holds of \<^verbatim>\<open>create\<close> for every payload and acting user, in a run without store
  failure: one row is appended, with the payload's fields, the acting user as owner,
  \<open>raised = 0\<close> and \<open>copied = 0\<close>, and the value returned is that row as an entity with its
  owner.
\<close>

lemma create_persists_owned_wish:
  assumes "script w = []"
  shows "\<exists>e row w'. create createWishDto user w = (Inr e, w')
       \<and> table w' = table w @ [row]
       \<and> wish_id row = next_id w
       \<and> wish_data.truncate row = createWishDto
       \<and> owner row = user \<and> raised row = 0 \<and> copied row = 0
       \<and> e = load [Owner] row
       \<and> owner e = Some user \<and> raised e = 0 \<and> copied e = 0"
  using assms
  by (simp add: create_def repo_save_quiet new_row_def wish_data.truncate_def load_def)


subsection \<open>C7: the two listings\<close>

text \<open>
  C7: for every table, in a run without store failure, \<^verbatim>\<open>findLatestWishes\<close> returns
  the projections of rows of the table, as many as the cap \<open>latest\<close> allows and the table
  has, in descending order of \<open>createdAt\<close>; \<^verbatim>\<open>findTopWishes\<close> does the same with the cap
  \<open>mostCopied\<close> and the order of \<open>copied\<close>. On an empty table both return the empty list.
\<close>

theorem listings_capped_and_ordered:
  assumes "script w = []"
  shows "(\<exists>rows. fst (findLatestWishes toJSON WishesLimits w) =
                   Inr (map toJSON (map (load [Owner, Offers, OffersUser]) rows))
            \<and> length rows = min (latest WishesLimits) (length (table w))
            \<and> sorted_wrt (\<lambda>a b. createdAt b \<le> createdAt a) rows
            \<and> (\<exists>rest. mset (rows @ rest) = mset (table w)
                  \<and> (\<forall>x\<in>set rows. \<forall>y\<in>set rest. createdAt y \<le> createdAt x))
            \<and> (table w = [] \<longrightarrow> rows = []))
       \<and> (\<exists>rows. fst (findTopWishes toJSON WishesLimits w) =
                   Inr (map toJSON (map (load [Owner, Offers, OffersUser]) rows))
            \<and> length rows = min (mostCopied WishesLimits) (length (table w))
            \<and> sorted_wrt (\<lambda>a b. copied b \<le> copied a) rows
            \<and> (\<exists>rest. mset (rows @ rest) = mset (table w)
                  \<and> (\<forall>x\<in>set rows. \<forall>y\<in>set rest. copied y \<le> copied x))
            \<and> (table w = [] \<longrightarrow> rows = []))"
proof (intro conjI)
  let ?l = "take (latest WishesLimits) (rev (sort_key createdAt (table w)))"
  have "fst (findLatestWishes toJSON WishesLimits w) =
          Inr (map toJSON (map (load [Owner, Offers, OffersUser]) ?l))"
    using assms
    by (simp add: findLatestWishes_def await_def repo_find_quiet resolve_def limit_def
          ordered_def matching_def)
  moreover have "table w = [] \<longrightarrow> ?l = []" by simp
  ultimately show "\<exists>rows. fst (findLatestWishes toJSON WishesLimits w) =
                   Inr (map toJSON (map (load [Owner, Offers, OffersUser]) rows))
            \<and> length rows = min (latest WishesLimits) (length (table w))
            \<and> sorted_wrt (\<lambda>a b. createdAt b \<le> createdAt a) rows
            \<and> (\<exists>rest. mset (rows @ rest) = mset (table w)
                  \<and> (\<forall>x\<in>set rows. \<forall>y\<in>set rest. createdAt y \<le> createdAt x))
            \<and> (table w = [] \<longrightarrow> rows = [])"
    using limit_ordered_props [where key = createdAt and n = "latest WishesLimits" and rows = "table w"]
      limit_ordered_rest [where key = createdAt and n = "latest WishesLimits" and rows = "table w"]
    by blast
next
  let ?l = "take (mostCopied WishesLimits) (rev (sort_key copied (table w)))"
  have "fst (findTopWishes toJSON WishesLimits w) =
          Inr (map toJSON (map (load [Owner, Offers, OffersUser]) ?l))"
    using assms
    by (simp add: findTopWishes_def await_def repo_find_quiet resolve_def limit_def
          ordered_def matching_def)
  moreover have "table w = [] \<longrightarrow> ?l = []" by simp
  ultimately show "\<exists>rows. fst (findTopWishes toJSON WishesLimits w) =
                   Inr (map toJSON (map (load [Owner, Offers, OffersUser]) rows))
            \<and> length rows = min (mostCopied WishesLimits) (length (table w))
            \<and> sorted_wrt (\<lambda>a b. copied b \<le> copied a) rows
            \<and> (\<exists>rest. mset (rows @ rest) = mset (table w)
                  \<and> (\<forall>x\<in>set rows. \<forall>y\<in>set rest. copied y \<le> copied x))
            \<and> (table w = [] \<longrightarrow> rows = [])"
    using limit_ordered_props [where key = copied and n = "mostCopied WishesLimits" and rows = "table w"]
      limit_ordered_rest [where key = copied and n = "mostCopied WishesLimits" and rows = "table w"]
    by blast
qed


theorem listings_capped_and_ordered_witness:
  "fst (findLatestWishes wish_id caps empty_shop) = Inr []
   \<and> fst (findTopWishes wish_id caps empty_shop) = Inr []
   \<and> fst (findLatestWishes wish_id caps shop) = Inr [7]
   \<and> fst (findTopWishes wish_id caps shop) = Inr [4]"
proof -
  have quiet: "script empty_shop = []" "table empty_shop = []"
    by (simp_all add: empty_shop_def shop_def)
  have full: "fst (findLatestWishes wish_id caps shop) = Inr [7]"
    "fst (findTopWishes wish_id caps shop) = Inr [4]"
    by code_simp+
  from listings_capped_and_ordered [OF quiet(1), of wish_id caps]
  show ?thesis using quiet(2) full by auto
qed


subsection \<open>C8: getManyByIds\<close>

text \<open>
  C8: on the empty id list \<^verbatim>\<open>getManyByIds\<close> returns the empty list and leaves the world
  as it is, the trace of store calls included. On a non-empty list, in a run without store
  failure, it makes one \<^verbatim>\<open>find\<close> call and returns the projections of exactly the rows
  whose id is in the list, loaded without relations; an id without a row adds nothing.
\<close>

theorem getManyByIds_batch:
  "getManyByIds toJSON [] w = (Inr [], w)
   \<and> (wishIds \<noteq> [] \<and> script w = [] \<longrightarrow>
        getManyByIds toJSON wishIds w =
          (Inr (map toJSON (map (load [])
                  (filter (\<lambda>r. wish_id r \<in> set wishIds) (table w)))),
           w\<lparr>trace := trace w @ [Find]\<rparr>))"
  by (simp add: getManyByIds_def resolve_def await_def repo_find_quiet limit_def ordered_def
        matching_def)


theorem getManyByIds_batch_witness:
  "getManyByIds id [] shop = (Inr [], shop)
   \<and> getManyByIds id [7, 9, 4] shop =
       (Inr [load [] kettle, load [] lamp], shop\<lparr>trace := [Find]\<rparr>)"
proof -
  have quiet: "[7, 9, 4] \<noteq> ([]::nat list) \<and> script shop = []" by (simp add: shop_def)
  have sel: "filter (\<lambda>r. wish_id r \<in> set [7, 9, 4]) (table shop) = [kettle, lamp]"
    by (simp add: shop_def kettle_def lamp_def)
  have tr: "trace shop = []" by (simp add: shop_def)
  from getManyByIds_batch [of id shop "[7, 9, 4]"]
  show ?thesis using quiet sel tr by simp
qed


subsection \<open>C9: a patch that repeats the stored price\<close>

text \<open>
  C9: for a wish owned by the requesting user with \<open>raised > 0\<close>, a patch whose price
  equals the stored price is not refused: in a run without store failure or interference
  \<^verbatim>\<open>update\<close> succeeds, the stored row is the old one with the other fields of the patch
  written and \<open>updatedAt\<close> set to the store's time, and its projection is returned.
\<close>

theorem same_price_patch_passes_lock:
  assumes "script w = []"
    and "find (\<lambda>r. wish_id r = wishId) (table w) = Some r"
    and "user_id (owner r) = userId"
    and "raised r > 0"
    and "new_price dto = Some (price r)"
  shows "fst (update toJSON wishId dto userId w) =
           Inr (toJSON (load [] (written (dto_columns dto) (clock w) r)))
       \<and> find (\<lambda>x. wish_id x = wishId) (table (snd (update toJSON wishId dto userId w))) =
           Some (written (dto_columns dto) (clock w) r)
       \<and> written (dto_columns dto) (clock w) r =
           r\<lparr>title := (case new_title dto of None \<Rightarrow> title r | Some v \<Rightarrow> v),
             description := (case new_description dto of None \<Rightarrow> description r | Some v \<Rightarrow> v),
             link := (case new_link dto of None \<Rightarrow> link r | Some v \<Rightarrow> v),
             image_url := (case new_image_url dto of None \<Rightarrow> image_url r | Some v \<Rightarrow> v),
             updatedAt := clock w\<rparr>"
proof -
  have ok: "new_price dto = None \<or> new_price dto = Some (price r) \<or> raised r \<le> 0"
    using assms(5) by simp
  note run = update_applies [OF assms(1-3) ok]
  show ?thesis
    by (simp add: run find_after_update assms(2) written_dto_columns assms(5))
qed


theorem same_price_patch_passes_lock_witness:
  "fst (update id 7 rename_keep_price 1 shop) = Inr (load [] (lamp\<lparr>title := ''reading lamp'', updatedAt := 5\<rparr>))
   \<and> find (\<lambda>x. wish_id x = 7) (table (snd (update id 7 rename_keep_price 1 shop))) =
       Some (lamp\<lparr>title := ''reading lamp'', updatedAt := 5\<rparr>)"
proof -
  have quiet: "script shop = []" by (simp add: shop_def)
  have l: "user_id (owner lamp) = 1" "raised lamp > 0"
    by (simp_all add: lamp_def alice_def)
  have p: "new_price rename_keep_price = Some (price lamp)"
    by (simp add: rename_keep_price_def lamp_def)
  have a: "written (dto_columns rename_keep_price) (clock shop) lamp
             = lamp\<lparr>title := ''reading lamp'', updatedAt := 5\<rparr>"
    by (simp add: written_dto_columns rename_keep_price_def lamp_def shop_def)
  from same_price_patch_passes_lock [OF quiet shop_finds(1) l p, of id]
  show ?thesis by (simp add: a)
qed


subsection \<open>C10: the source wish vanishes before the re-read\<close>

text \<open>
  C10: when the source wish is deleted between the first load of \<^verbatim>\<open>copy\<close> and the
  re-read inside the block, \<^verbatim>\<open>copy\<close> fails with \<open>TypeError\<close>, after a rollback and a
  release. In the block itself, a re-read that finds nothing always ends in \<open>TypeError\<close>;
  and whenever the block throws a \<open>NotFoundException\<close>, it has made exactly four store
  calls, the last one the read of the row it has just created.
\<close>

theorem vanished_source_is_type_error:
  "(find (\<lambda>x. wish_id x = wishId) (table w) \<noteq> None
      \<and> script w = [Quiet, Quiet, Quiet, Removed wishId]
    \<longrightarrow> fst (copy toJSON wishId user w) = Inl TypeError
        \<and> trace (snd (copy toJSON wishId user w)) =
            trace w @ [FindOne wishId, Connect, StartTransaction, FindOne wishId,
                       RollbackTransaction, Release])
   \<and> (fst (repo_findOneBy wishId w) = Inr None
    \<longrightarrow> fst (copy_block toJSON wishId user w) = Inl TypeError)
   \<and> (fst (copy_block toJSON wishId user w) = Inl (NotFoundException m)
    \<longrightarrow> trace (snd (copy_block toJSON wishId user w)) =
          trace w @ [FindOne wishId, Update wishId, Save, FindOne (next_id w)])"
  by (simp add: copy_source_removed copy_block_null_source copy_block_not_found)


theorem vanished_source_is_type_error_witness:
  "fst (copy id 7 bob shop_source_removed) = Inl TypeError
   \<and> trace (snd (copy id 7 bob shop_source_removed)) =
       [FindOne 7, Connect, StartTransaction, FindOne 7, RollbackTransaction, Release]
   \<and> fst (copy_block id 7 bob empty_shop) = Inl TypeError
   \<and> fst (copy_block id 7 bob shop_copy_removed) = Inl (NotFoundException NotFound)
   \<and> trace (snd (copy_block id 7 bob shop_copy_removed)) =
       [FindOne 7, Update 7, Save, FindOne 8]"
proof -
  have a: "find (\<lambda>x. wish_id x = 7) (table shop_source_removed) \<noteq> None
           \<and> script shop_source_removed = [Quiet, Quiet, Quiet, Removed 7]"
    by (simp add: shop_source_removed_def shop_def lamp_def kettle_def)
  have b: "fst (repo_findOneBy 7 empty_shop) = Inr None"
    by code_simp
  have c: "fst (copy_block id 7 bob shop_copy_removed) = Inl (NotFoundException NotFound)"
    by code_simp
  have t: "trace shop_source_removed = []" "trace shop_copy_removed = []"
    "next_id shop_copy_removed = 8"
    by (simp_all add: shop_source_removed_def shop_copy_removed_def shop_def)
  from vanished_source_is_type_error [of 7 shop_source_removed id bob NotFound]
       vanished_source_is_type_error [of 7 empty_shop id bob NotFound]
       vanished_source_is_type_error [of 7 shop_copy_removed id bob NotFound]
  show ?thesis using a b c t by simp
qed


end
